theory Spec2Isabelle
  imports Main "HOL-Library.Word" "HOL-Library.AList" "HOL-Library.Multiset"
begin

section \<open>The Printer Manager of the cloud print connector\<close>

text \<open>
  A shallow embedding of \<^verbatim>\<open>src/manager/printermanager.go\<close>. The CUPS client, the
  Google Cloud Print client and package \<^verbatim>\<open>lib\<close> are collaborators of the manager whose
  sources are not part of the file: their calls are answered by an environment record,
  and the calls the manager makes are recorded as events.
\<close>

subsection \<open>Data\<close>

text \<open>Go's \<^verbatim>\<open>uint\<close> on a 64-bit platform: addition wraps around.\<close>

type_synonym uint = "64 word"

text \<open>An \<^verbatim>\<open>error\<close> is represented by the text that \<^verbatim>\<open>%s\<close> prints for it.\<close>

type_synonym error = string

type_synonym options = "(string \<times> string) list"

text \<open>
  Modelled from the spec: \<^verbatim>\<open>lib.Semaphore\<close>, the bounded counting semaphore, is declared
  outside the source file. It has a capacity fixed by \<^verbatim>\<open>NewSemaphore\<close> and a number of
  current holders, which \<^verbatim>\<open>Count\<close> returns. \<^verbatim>\<open>Acquire\<close> blocks while the semaphore is
  full: \<open>None\<close> stands for a caller that is blocked.
\<close>

record Semaphore =
  holders :: uint
  capacity :: uint

definition NewSemaphore :: "uint \<Rightarrow> Semaphore" where
  "NewSemaphore n = \<lparr>holders = 0, capacity = n\<rparr>"

definition Count :: "Semaphore \<Rightarrow> uint" where
  "Count s = holders s"

definition Acquire :: "Semaphore \<Rightarrow> Semaphore option" where
  "Acquire s = (if holders s < capacity s then Some (s\<lparr>holders := holders s + 1\<rparr>) else None)"

definition Release :: "Semaphore \<Rightarrow> Semaphore" where
  "Release s = s\<lparr>holders := holders s - 1\<rparr>"

text \<open>
  Modelled from the spec: \<^verbatim>\<open>lib.Printer\<close> with the fields the spec's data model names.
  \<^verbatim>\<open>CUPSJobSemaphore\<close> is a pointer: \<open>None\<close> is \<^verbatim>\<open>nil\<close>.
\<close>

record Printer =
  Name :: string
  GCPID :: string
  CapsHash :: string
  Description :: string
  CUPSJobSemaphore :: "Semaphore option"

text \<open>The zero value \<^verbatim>\<open>lib.Printer{}\<close>.\<close>

definition empty_Printer :: Printer where
  "empty_Printer = \<lparr>Name = '''', GCPID = '''', CapsHash = '''', Description = '''',
     CUPSJobSemaphore = None\<rparr>"

datatype Operation = RegisterPrinter | UpdatePrinter | DeletePrinter | LeavePrinter

record PrinterDiff =
  Operation :: Operation
  Printer :: Printer
  CapsHashChanged :: bool

record Job =
  GCPJobID :: string
  GCPPrinterID :: string
  TicketURL :: string
  FileURL :: string
  OwnerID :: string

text \<open>
  Modelled from the spec: a status of the local print system is represented by the
  string that its projection \<^verbatim>\<open>GCPStatus()\<close> returns; the three constants of package
  \<^verbatim>\<open>lib\<close> name the statuses of the cloud service.
\<close>

datatype CUPSJobStatus = CUPSJobStatus string

fun GCPStatus :: "CUPSJobStatus \<Rightarrow> string" where
  "GCPStatus (CUPSJobStatus s) = s"

definition JobInProgress :: string where
  "JobInProgress = ''IN_PROGRESS''"

definition JobDone :: string where
  "JobDone = ''DONE''"

definition JobError :: string where
  "JobError = ''ERROR''"

text \<open>
  The struct \<^verbatim>\<open>PrinterManager\<close>. The Go map \<^verbatim>\<open>gcpPrintersByGCPID\<close> is an association
  list, read with \<open>map_of\<close> and written with \<open>AList.update\<close>, so that it can be iterated.
  The two clients are the environment below; the two channels belong to the protocol
  model of the last section; the poll interval is time and is left out.
\<close>

record PrinterManager =
  gcpPrintersByGCPID :: "(string \<times> Printer) list"
  downloadSemaphore :: Semaphore
  jobStatsSemaphore :: Semaphore
  jobsDone :: uint
  jobsError :: uint
  cupsQueueSize :: uint
  jobFullUsername :: bool

text \<open>
  The answers of the collaborators. \<open>cups_GetJobStatus env id\<close> lists the answers that
  the successive ticks of the polling loop receive for job \<open>id\<close>, as far as they have arrived.
\<close>

record Env =
  cups_GetPrinters :: "error + Printer list"
  cups_GetPPD :: "string \<Rightarrow> error + string"
  cups_CreateTempFile :: "error + string"
  cups_Print :: "string \<Rightarrow> string \<Rightarrow> string \<Rightarrow> string \<Rightarrow> options \<Rightarrow> error + nat"
  cups_GetJobStatus :: "nat \<Rightarrow> (error + CUPSJobStatus \<times> string) list"
  gcp_Register :: "Printer \<Rightarrow> string \<Rightarrow> error + string"
  gcp_CanShare :: bool
  gcp_Share :: "string \<Rightarrow> error option"
  gcp_Update :: "PrinterDiff \<Rightarrow> string \<Rightarrow> error option"
  gcp_Delete :: "string \<Rightarrow> error option"
  gcp_Ticket :: "string \<Rightarrow> error + options"
  gcp_Download :: "string \<Rightarrow> string \<Rightarrow> error option"
  lib_DiffPrinters :: "Printer list \<Rightarrow> Printer list \<Rightarrow> PrinterDiff list option"

text \<open>The calls a Pipeline makes, in the order it makes them.\<close>

datatype event =
    Control string string string
  | Ticket string
  | CreateTempFile
  | Download string string
  | Close string
  | Remove string
  | Print string string string string options
  | GetJobStatus nat
  | IncrementJobsProcessed bool

text \<open>The \<^verbatim>\<open>return\<close> statement at which an invocation of \<^verbatim>\<open>processJob\<close> left.\<close>

datatype exit_path =
    UnknownPrinter
  | TicketFailed
  | TempFileFailed
  | DownloadFailed
  | SubmitFailed
  | StatusQueryFailed
  | TerminalStatus string

text \<open>
  \<open>NotReturned\<close>: the invocation is blocked in \<^verbatim>\<open>Acquire\<close>, or is in its polling loop and
  has consumed all the ticks that have arrived.
\<close>

datatype outcome = Returned exit_path | NotReturned

record Run =
  pm_after :: PrinterManager
  events :: "event list"
  outcome :: outcome

definition after :: "event list \<Rightarrow> Run \<Rightarrow> Run" where
  "after evs r = r\<lparr>events := evs @ events r\<rparr>"

subsection \<open>Strings\<close>

text \<open>\<^verbatim>\<open>strings.Split\<close> for a separator of one byte.\<close>

fun Split :: "string \<Rightarrow> char \<Rightarrow> string list" where
  "Split [] sep = [[]]"
| "Split (c # cs) sep =
     (if c = sep then [] # Split cs sep
      else (c # hd (Split cs sep)) # tl (Split cs sep))"

text \<open>The verb \<^verbatim>\<open>%d\<close>.\<close>

fun decimal :: "nat \<Rightarrow> string" where
  "decimal n =
     (if n < 10 then [char_of (48 + n)] else decimal (n div 10) @ [char_of (48 + n mod 10)])"

declare decimal.simps [simp del]

subsection \<open>The Stats Aggregator\<close>

text \<open>
  \<^verbatim>\<open>incrementJobsProcessed\<close> holds the stats mutex while it adds one to a counter; the
  deferred \<^verbatim>\<open>Release\<close> runs when it returns.
\<close>

definition incrementJobsProcessed :: "PrinterManager \<Rightarrow> bool \<Rightarrow> PrinterManager option" where
  "incrementJobsProcessed pm success =
     (case Acquire (jobStatsSemaphore pm) of
        None \<Rightarrow> None
      | Some held \<Rightarrow>
          (let pm1 = pm\<lparr>jobStatsSemaphore := held\<rparr>;
               pm2 = (if success then pm1\<lparr>jobsDone := jobsDone pm1 + 1\<rparr>
                      else pm1\<lparr>jobsError := jobsError pm1 + 1\<rparr>)
           in Some (pm2\<lparr>jobStatsSemaphore := Release (jobStatsSemaphore pm2)\<rparr>)))"

text \<open>
  \<^verbatim>\<open>GetJobStats\<close>: \<^verbatim>\<open>processed\<close> is declared and returned, and nothing is assigned to it.
  \<open>None\<close> is the panic of \<^verbatim>\<open>Count\<close> on a \<^verbatim>\<open>nil\<close> semaphore.
\<close>

fun GetJobStats_range :: "(string \<times> Printer) list \<Rightarrow> uint \<Rightarrow> uint option" where
  "GetJobStats_range [] processing = Some processing"
| "GetJobStats_range ((gcpid, printer) # rest) processing =
     (case CUPSJobSemaphore printer of
        None \<Rightarrow> None
      | Some sem \<Rightarrow> GetJobStats_range rest (processing + Count sem))"

definition GetJobStats :: "PrinterManager \<Rightarrow> (uint \<times> uint \<times> error option) option" where
  "GetJobStats pm =
     (let processed = 0; processing = 0
      in case GetJobStats_range (gcpPrintersByGCPID pm) processing of
           None \<Rightarrow> None
         | Some processing' \<Rightarrow> Some (processed, processing', None))"

subsection \<open>The Job Execution Pipeline\<close>

text \<open>
  The tail shared by the error exits: report \<^verbatim>\<open>lib.JobError\<close> with the message, count the
  job as failed, return.
\<close>

definition fail :: "PrinterManager \<Rightarrow> Job \<Rightarrow> string \<Rightarrow> exit_path \<Rightarrow> Run" where
  "fail pm job msg path =
     (case incrementJobsProcessed pm False of
        None \<Rightarrow>
          \<lparr>pm_after = pm,
           events = [Control (GCPJobID job) JobError msg, IncrementJobsProcessed False],
           outcome = NotReturned\<rparr>
      | Some pm' \<Rightarrow>
          \<lparr>pm_after = pm',
           events = [Control (GCPJobID job) JobError msg, IncrementJobsProcessed False],
           outcome = Returned path\<rparr>)"

text \<open>
  The loop over \<^verbatim>\<open>time.Tick\<close>: one answer of \<^verbatim>\<open>GetJobStatus\<close> per tick; \<open>status\<close> and
  \<open>message\<close> are the pair reported last.
\<close>

fun poll :: "PrinterManager \<Rightarrow> Job \<Rightarrow> nat \<Rightarrow> (error + CUPSJobStatus \<times> string) list \<Rightarrow>
    string \<Rightarrow> string \<Rightarrow> Run" where
  "poll pm job cupsJobID [] status message =
     \<lparr>pm_after = pm, events = [], outcome = NotReturned\<rparr>"
| "poll pm job cupsJobID (Inl err # ticks) status message =
     after [GetJobStatus cupsJobID]
       (fail pm job
          (''Failed to get status of CUPS job '' @ decimal cupsJobID @ '': '' @ err)
          StatusQueryFailed)"
| "poll pm job cupsJobID (Inr (latestStatus, latestMessage) # ticks) status message =
     after [GetJobStatus cupsJobID]
       (let changed = (GCPStatus latestStatus \<noteq> status \<or> latestMessage \<noteq> message);
            status' = (if changed then GCPStatus latestStatus else status);
            message' = (if changed then latestMessage else message)
        in after (if changed then [Control (GCPJobID job) status' message'] else [])
             (if GCPStatus latestStatus \<noteq> JobInProgress then
                (let success = (GCPStatus latestStatus = JobDone)
                 in case incrementJobsProcessed pm success of
                      None \<Rightarrow>
                        \<lparr>pm_after = pm, events = [IncrementJobsProcessed success],
                         outcome = NotReturned\<rparr>
                    | Some pm' \<Rightarrow>
                        \<lparr>pm_after = pm', events = [IncrementJobsProcessed success],
                         outcome = Returned (TerminalStatus (GCPStatus latestStatus))\<rparr>)
              else poll pm job cupsJobID ticks status' message'))"

text \<open>
  \<^verbatim>\<open>defer os.Remove(pdfFile.Name())\<close>: the removal runs when the invocation returns from
  the code that follows the \<^verbatim>\<open>defer\<close> statement.
\<close>

definition defer_Remove :: "string \<Rightarrow> Run \<Rightarrow> Run" where
  "defer_Remove path r =
     (case outcome r of
        NotReturned \<Rightarrow> r
      | Returned p \<Rightarrow> r\<lparr>events := events r @ [Remove path]\<rparr>)"

text \<open>Lines 288 to 332: the projection of the owner, the submission, the polling loop.\<close>

definition submit :: "Env \<Rightarrow> PrinterManager \<Rightarrow> Job \<Rightarrow> Printer \<Rightarrow> string \<Rightarrow> options \<Rightarrow> Run" where
  "submit env pm job printer pdfFile opts =
     (let ownerID = (if \<not> jobFullUsername pm then Split (OwnerID job) CHR ''@'' ! 0
                     else OwnerID job);
          title = ''gcp:'' @ GCPJobID job
      in after [Print (Name printer) pdfFile title ownerID opts]
           (case cups_Print env (Name printer) pdfFile title ownerID opts of
              Inl err \<Rightarrow>
                fail pm job
                  (''Failed to send job '' @ GCPJobID job @ '' to CUPS: '' @ err)
                  SubmitFailed
            | Inr cupsJobID \<Rightarrow>
                poll pm job cupsJobID (cups_GetJobStatus env cupsJobID) '''' ''''))"

definition processJob :: "Env \<Rightarrow> PrinterManager \<Rightarrow> Job \<Rightarrow> Run" where
  "processJob env pm job =
     (case map_of (gcpPrintersByGCPID pm) (GCPPrinterID job) of
        None \<Rightarrow>
          fail pm job
            (''Failed to find GCP printer '' @ GCPPrinterID job @ '' for job '' @ GCPJobID job)
            UnknownPrinter
      | Some printer \<Rightarrow>
          after [Ticket (TicketURL job)]
            (case gcp_Ticket env (TicketURL job) of
               Inl err \<Rightarrow>
                 fail pm job
                   (''Failed to get a ticket for job '' @ GCPJobID job @ '': '' @ err)
                   TicketFailed
             | Inr opts \<Rightarrow>
                 after [CreateTempFile]
                   (case cups_CreateTempFile env of
                      Inl err \<Rightarrow>
                        fail pm job
                          (''Failed to create a temporary file for job '' @ GCPJobID job
                             @ '': '' @ err)
                          TempFileFailed
                    | Inr pdfFile \<Rightarrow>
                        (case Acquire (downloadSemaphore pm) of
                           None \<Rightarrow> \<lparr>pm_after = pm, events = [], outcome = NotReturned\<rparr>
                         | Some held \<Rightarrow>
                             (let pm1 = pm\<lparr>downloadSemaphore := held\<rparr>;
                                  err = gcp_Download env pdfFile (FileURL job);
                                  pm2 = pm1\<lparr>downloadSemaphore := Release (downloadSemaphore pm1)\<rparr>
                              in after [Download pdfFile (FileURL job)]
                                   (case err of
                                      Some e \<Rightarrow>
                                        fail pm2 job
                                          (''Failed to download PDF for job '' @ GCPJobID job
                                             @ '': '' @ e)
                                          DownloadFailed
                                    | None \<Rightarrow>
                                        after [Close pdfFile]
                                          (defer_Remove pdfFile
                                             (submit env pm2 job printer pdfFile opts))))))))"

subsection \<open>The Printer Reconciler\<close>

definition printerMapToSlice :: "(string \<times> Printer) list \<Rightarrow> Printer list" where
  "printerMapToSlice m = map snd m"

text \<open>
  \<^verbatim>\<open>applyDiff\<close>: the result is the printer that the goroutine sends on the channel.
  Modelled from the spec: \<^verbatim>\<open>gcp.Register\<close>, declared outside the source file, populates
  the remote id of the printer it is given; \<open>gcp_Register\<close> answers with that id.
\<close>

definition applyDiff :: "Env \<Rightarrow> PrinterManager \<Rightarrow> PrinterDiff \<Rightarrow> Printer" where
  "applyDiff env pm diff =
     (case Operation diff of
        RegisterPrinter \<Rightarrow>
          (case cups_GetPPD env (Name (Printer diff)) of
             Inl err \<Rightarrow> empty_Printer
           | Inr ppd \<Rightarrow>
               (case gcp_Register env (Printer diff) ppd of
                  Inl err \<Rightarrow> empty_Printer
                | Inr gcpid \<Rightarrow>
                    (let registered = (Printer diff)\<lparr>GCPID := gcpid\<rparr>;
                         shared = (if gcp_CanShare env then gcp_Share env (GCPID registered)
                                   else None)
                     in registered\<lparr>CUPSJobSemaphore := Some (NewSemaphore (cupsQueueSize pm))\<rparr>)))
      | UpdatePrinter \<Rightarrow>
          (case (if CapsHashChanged diff then cups_GetPPD env (Name (Printer diff))
                 else Inr []) of
             Inl err \<Rightarrow> Printer diff
           | Inr ppd \<Rightarrow>
               (case gcp_Update env diff ppd of
                  Some err \<Rightarrow> Printer diff
                | None \<Rightarrow> Printer diff))
      | DeletePrinter \<Rightarrow>
          (case gcp_Delete env (GCPID (Printer diff)) of
             Some err \<Rightarrow> empty_Printer
           | None \<Rightarrow> empty_Printer)
      | LeavePrinter \<Rightarrow> Printer diff)"

text \<open>
  The goroutines of one pass send their results on an unbuffered channel, and the pass
  receives one result per diff. Which of the waiting senders a receive takes is the
  scheduler's choice: \<open>k\<close> picks among the results still pending.
\<close>

fun receive_all :: "nat list \<Rightarrow> 'a list \<Rightarrow> 'a list" where
  "receive_all sched [] = []"
| "receive_all [] pending = pending"
| "receive_all (k # sched) pending =
     (let i = k mod length pending
      in pending ! i # receive_all sched (take i pending @ drop (Suc i) pending))"

text \<open>Lines 120 to 126: the fresh map built from the results received.\<close>

fun collect :: "Printer list \<Rightarrow> (string \<times> Printer) list \<Rightarrow> (string \<times> Printer) list" where
  "collect [] currentPrinters = currentPrinters"
| "collect (p # received) currentPrinters =
     collect received
       (if Name p \<noteq> [] then AList.update (GCPID p) p currentPrinters else currentPrinters)"

definition syncPrinters :: "Env \<Rightarrow> nat list \<Rightarrow> PrinterManager \<Rightarrow> PrinterManager" where
  "syncPrinters env sched pm =
     (case cups_GetPrinters env of
        Inl err \<Rightarrow> pm
      | Inr cupsPrinters \<Rightarrow>
          (case lib_DiffPrinters env cupsPrinters (printerMapToSlice (gcpPrintersByGCPID pm)) of
             None \<Rightarrow> pm
           | Some diffs \<Rightarrow>
               (let received = receive_all sched (map (applyDiff env pm) diffs);
                    currentPrinters = collect received []
                in pm\<lparr>gcpPrintersByGCPID := currentPrinters\<rparr>)))"

subsection \<open>The goroutines and their channels\<close>

text \<open>
  The control state of the goroutines that \<^verbatim>\<open>NewPrinterManager\<close> starts, of one call of
  \<^verbatim>\<open>Quit\<close>, and of the Pipelines spawned. Both stop channels and the job channel are
  unbuffered: a send and a receive on a channel happen together, as one step.
\<close>

datatype reconciler_pc = Reconciler_select | Reconciler_ack | Reconciler_returned

datatype quit_pc = Quit_not_called | Quit_send | Quit_receive | Quit_returned

datatype consumer_pc = Consumer_select | Consumer_ack | Consumer_returned

text \<open>
  The producer of \<^verbatim>\<open>listenGCPJobs\<close>: in \<^verbatim>\<open>NextJobBatch\<close>; at the head of the \<^verbatim>\<open>range\<close> loop
  with the jobs still to come; or blocked in \<^verbatim>\<open>ch <- &job\<close>. The number is the address
  of the variable \<^verbatim>\<open>job\<close>, which the \<^verbatim>\<open>range\<close> statement declares once for all its
  iterations.
\<close>

datatype producer_pc =
    Producer_NextJobBatch
  | Producer_range "Job list" nat
  | Producer_send "Job list" nat

datatype channel = printerPollQuit | gcpJobPollQuit | jobs_channel

datatype goroutine = Go_Quit | Go_Reconciler | Go_Producer | Go_Consumer

text \<open>
  A Pipeline holds the pointer it was spawned with; \<open>job_read\<close> is what it found
  behind the pointer when it last read the job.
\<close>

record Pipeline =
  job_ptr :: nat
  job_read :: "Job option"

record Manager =
  reconciler :: reconciler_pc
  passes :: nat
  quit :: quit_pc
  producer :: producer_pc
  consumer :: consumer_pc
  job_vars :: "Job list"
  pipelines :: "Pipeline list"
  delivered :: "(channel \<times> goroutine \<times> goroutine) list"

definition zero_Job :: Job where
  "zero_Job = \<lparr>GCPJobID = [], GCPPrinterID = [], TicketURL = [], FileURL = [], OwnerID = []\<rparr>"

text \<open>The state in which \<^verbatim>\<open>NewPrinterManager\<close> returns.\<close>

definition started :: Manager where
  "started = \<lparr>reconciler = Reconciler_select, passes = 0, quit = Quit_not_called,
     producer = Producer_NextJobBatch, consumer = Consumer_select, job_vars = [],
     pipelines = [], delivered = []\<rparr>"

datatype action =
    Call_Quit
  | Timer_fires
  | Stop_signal
  | Stop_ack
  | Batch_arrives "Job list"
  | Range_next
  | Job_handoff
  | Intake_stop_signal
  | Intake_stop_ack
  | Pipeline_reads nat

text \<open>
  The goroutines that are blocked in a send on \<^verbatim>\<open>gcpJobPollQuit\<close>, and those blocked in a
  receive from it. Line 218 is the only send on that channel and line 217 the only
  receive, both of the consumer.
\<close>

definition senders_gcpJobPollQuit :: "Manager \<Rightarrow> goroutine list" where
  "senders_gcpJobPollQuit s = (if consumer s = Consumer_ack then [Go_Consumer] else [])"

definition receivers_gcpJobPollQuit :: "Manager \<Rightarrow> goroutine list" where
  "receivers_gcpJobPollQuit s = (if consumer s = Consumer_select then [Go_Consumer] else [])"

text \<open>
  One step of the manager; \<open>None\<close> when the action is not enabled.
  \<^item> \<open>Call_Quit\<close>: the enclosing process calls \<^verbatim>\<open>Quit\<close>, which reaches the send of line 76.
  \<^item> \<open>Timer_fires\<close>: line 84, the Reconciler runs a pass (line 85) and selects again.
  \<^item> \<open>Stop_signal\<close>: the send of line 76 meets the receive of line 86.
  \<^item> \<open>Stop_ack\<close>: the send of line 87 meets the receive of line 77; both return.
  \<^item> \<open>Batch_arrives\<close>: line 203 returns a batch; line 207 declares \<^verbatim>\<open>job\<close>.
  \<^item> \<open>Range_next\<close>: line 207 assigns the next job to \<^verbatim>\<open>job\<close>, or ends the loop.
  \<^item> \<open>Job_handoff\<close>: the send of line 208 meets the receive of line 215; line 216 spawns
    a Pipeline with the pointer received.
  \<^item> \<open>Intake_stop_signal\<close>: a send on \<^verbatim>\<open>gcpJobPollQuit\<close> meets the receive of line 217.
  \<^item> \<open>Intake_stop_ack\<close>: the send of line 218 meets a receive; the consumer returns.
  \<^item> \<open>Pipeline_reads\<close>: a Pipeline reads the fields of \<^verbatim>\<open>*job\<close>.
\<close>

fun step :: "action \<Rightarrow> Manager \<Rightarrow> Manager option" where
  "step Call_Quit s =
     (if quit s = Quit_not_called then Some (s\<lparr>quit := Quit_send\<rparr>) else None)"
| "step Timer_fires s =
     (if reconciler s = Reconciler_select then Some (s\<lparr>passes := Suc (passes s)\<rparr>) else None)"
| "step Stop_signal s =
     (if quit s = Quit_send \<and> reconciler s = Reconciler_select
      then Some (s\<lparr>quit := Quit_receive, reconciler := Reconciler_ack,
                   delivered := delivered s @ [(printerPollQuit, Go_Quit, Go_Reconciler)]\<rparr>)
      else None)"
| "step Stop_ack s =
     (if reconciler s = Reconciler_ack \<and> quit s = Quit_receive
      then Some (s\<lparr>quit := Quit_returned, reconciler := Reconciler_returned,
                   delivered := delivered s @ [(printerPollQuit, Go_Reconciler, Go_Quit)]\<rparr>)
      else None)"
| "step (Batch_arrives jobs) s =
     (if producer s = Producer_NextJobBatch
      then Some (s\<lparr>producer := Producer_range jobs (length (job_vars s)),
                   job_vars := job_vars s @ [zero_Job]\<rparr>)
      else None)"
| "step Range_next s =
     (case producer s of
        Producer_range [] a \<Rightarrow> Some (s\<lparr>producer := Producer_NextJobBatch\<rparr>)
      | Producer_range (j # rest) a \<Rightarrow>
          Some (s\<lparr>producer := Producer_send rest a, job_vars := (job_vars s)[a := j]\<rparr>)
      | _ \<Rightarrow> None)"
| "step Job_handoff s =
     (case producer s of
        Producer_send rest a \<Rightarrow>
          (if consumer s = Consumer_select
           then Some (s\<lparr>producer := Producer_range rest a,
                        pipelines := pipelines s @ [\<lparr>job_ptr = a, job_read = None\<rparr>],
                        delivered := delivered s @ [(jobs_channel, Go_Producer, Go_Consumer)]\<rparr>)
           else None)
      | _ \<Rightarrow> None)"
| "step Intake_stop_signal s =
     (case (filter (\<lambda>g. g \<noteq> Go_Consumer) (senders_gcpJobPollQuit s), consumer s) of
        (g # _, Consumer_select) \<Rightarrow>
          Some (s\<lparr>consumer := Consumer_ack,
                  delivered := delivered s @ [(gcpJobPollQuit, g, Go_Consumer)]\<rparr>)
      | _ \<Rightarrow> None)"
| "step Intake_stop_ack s =
     (case (consumer s, filter (\<lambda>g. g \<noteq> Go_Consumer) (receivers_gcpJobPollQuit s)) of
        (Consumer_ack, g # _) \<Rightarrow>
          Some (s\<lparr>consumer := Consumer_returned,
                  delivered := delivered s @ [(gcpJobPollQuit, Go_Consumer, g)]\<rparr>)
      | _ \<Rightarrow> None)"
| "step (Pipeline_reads k) s =
     (if k < length (pipelines s) \<and> job_ptr (pipelines s ! k) < length (job_vars s)
      then Some (s\<lparr>pipelines := (pipelines s)
                     [k := (pipelines s ! k)\<lparr>job_read := Some (job_vars s ! job_ptr (pipelines s ! k))\<rparr>]\<rparr>)
      else None)"

fun run :: "action list \<Rightarrow> Manager \<Rightarrow> Manager option" where
  "run [] s = Some s"
| "run (a # as) s = (case step a s of None \<Rightarrow> None | Some s' \<Rightarrow> run as s')"

section \<open>Notions used by the properties\<close>

subsection \<open>Reading a run\<close>

text \<open>The flags of the calls of \<^verbatim>\<open>incrementJobsProcessed\<close>, in order.\<close>

fun increments :: "event list \<Rightarrow> bool list" where
  "increments [] = []"
| "increments (IncrementJobsProcessed b # evs) = b # increments evs"
| "increments (e # evs) = increments evs"

text \<open>The Control reports sent to the cloud service, in order: job, status, message.\<close>

fun controls :: "event list \<Rightarrow> (string \<times> string \<times> string) list" where
  "controls [] = []"
| "controls (Control j s m # evs) = (j, s, m) # controls evs"
| "controls (e # evs) = controls evs"

text \<open>A report is terminal when its status is not \<^verbatim>\<open>lib.JobInProgress\<close>.\<close>

definition terminal_reports :: "event list \<Rightarrow> (string \<times> string \<times> string) list" where
  "terminal_reports evs = filter (\<lambda>(j, s, m). s \<noteq> JobInProgress) (controls evs)"

text \<open>
  A report whose status is not in progress can only be the last report: every report
  before the last is in progress. This holds for every sequence of answers, errors included.
\<close>

definition terminal_only_last :: "(string \<times> string \<times> string) list \<Rightarrow> bool" where
  "terminal_only_last cs = (\<forall>c \<in> set (butlast cs). fst (snd c) = JobInProgress)"

text \<open>
  An invocation that has returned made one call of \<^verbatim>\<open>incrementJobsProcessed\<close>, with
  \<^verbatim>\<open>true\<close> when it left on the status \<^verbatim>\<open>lib.JobDone\<close> and \<^verbatim>\<open>false\<close> otherwise, and the
  manager it leaves is the one that call returns.
\<close>

definition counted_once :: "PrinterManager \<Rightarrow> Run \<Rightarrow> bool" where
  "counted_once pm r =
     (case outcome r of
        NotReturned \<Rightarrow> True
      | Returned p \<Rightarrow>
          increments (events r) = [p = TerminalStatus JobDone] \<and>
          incrementJobsProcessed pm (p = TerminalStatus JobDone) = Some (pm_after r))"

text \<open>
  A job is in flight when its Pipeline is past the ticket fetch (it has asked for the
  temporary file) and has not returned.
\<close>

definition in_flight :: "Run \<Rightarrow> bool" where
  "in_flight r = (CreateTempFile \<in> set (events r) \<and> outcome r = NotReturned)"

definition submitted :: "Run \<Rightarrow> bool" where
  "submitted r = (\<exists>e \<in> set (events r). case e of Print n f t ow opts \<Rightarrow> True | _ \<Rightarrow> False)"

subsection \<open>The polling loop as the specification words it\<close>

text \<open>
  At each tick the projected pair is reported if it differs from the pair reported last,
  and the loop ends at the first status that is not in progress. \<open>reported\<close> starts as
  the pair of empty strings.
\<close>

fun spec_reports :: "string \<times> string \<Rightarrow> (string \<times> string) list \<Rightarrow> (string \<times> string) list" where
  "spec_reports reported [] = []"
| "spec_reports reported (ob # obs) =
     (if ob \<noteq> reported then [ob] else []) @
     (if fst ob \<noteq> JobInProgress then []
      else spec_reports (if ob \<noteq> reported then ob else reported) obs)"

text \<open>The answers of \<^verbatim>\<open>GetJobStatus\<close> for a sequence of projected pairs, none an error.\<close>

definition ticks_of :: "(string \<times> string) list \<Rightarrow> (error + CUPSJobStatus \<times> string) list" where
  "ticks_of obs = map (\<lambda>(s, m). Inr (CUPSJobStatus s, m)) obs"

subsection \<open>Concrete inputs\<close>

definition example_printer :: Printer where
  "example_printer = \<lparr>Name = ''HP'', GCPID = ''r7'', CapsHash = ''h1'',
     Description = ''office'', CUPSJobSemaphore = Some (NewSemaphore 1)\<rparr>"

definition example_pm :: PrinterManager where
  "example_pm = \<lparr>gcpPrintersByGCPID = [(''r7'', example_printer)],
     downloadSemaphore = NewSemaphore 2, jobStatsSemaphore = NewSemaphore 1,
     jobsDone = 0, jobsError = 0, cupsQueueSize = 1, jobFullUsername = False\<rparr>"

definition example_job :: Job where
  "example_job = \<lparr>GCPJobID = ''j1'', GCPPrinterID = ''r7'', TicketURL = ''ticket/j1'',
     FileURL = ''file/j1'', OwnerID = ''alice@corp''\<rparr>"

definition second_job :: Job where
  "second_job = \<lparr>GCPJobID = ''j2'', GCPPrinterID = ''r7'', TicketURL = ''ticket/j2'',
     FileURL = ''file/j2'', OwnerID = ''bob@corp''\<rparr>"

definition stray_job :: Job where
  "stray_job = \<lparr>GCPJobID = ''j9'', GCPPrinterID = ''r99'', TicketURL = ''ticket/j9'',
     FileURL = ''file/j9'', OwnerID = ''carol''\<rparr>"

text \<open>Every call succeeds; the job is queued, queued, printing, then done.\<close>

definition example_env :: Env where
  "example_env = \<lparr>
     cups_GetPrinters = Inr [],
     cups_GetPPD = (\<lambda>name. Inr ''ppd''),
     cups_CreateTempFile = Inr ''/tmp/job.pdf'',
     cups_Print = (\<lambda>name path title owner opts. Inr 7),
     cups_GetJobStatus = (\<lambda>cupsJobID.
        ticks_of [(JobInProgress, ''q''), (JobInProgress, ''q''),
                  (JobInProgress, ''printing''), (JobDone, [])]),
     gcp_Register = (\<lambda>p ppd. Inr ''r1''),
     gcp_CanShare = True,
     gcp_Share = (\<lambda>gcpid. None),
     gcp_Update = (\<lambda>diff ppd. None),
     gcp_Delete = (\<lambda>gcpid. None),
     gcp_Ticket = (\<lambda>url. Inr []),
     gcp_Download = (\<lambda>path url. None),
     lib_DiffPrinters = (\<lambda>cupsPrinters gcpPrinters. None)\<rparr>"

text \<open>The download fails.\<close>

definition failing_download_env :: Env where
  "failing_download_env = example_env\<lparr>gcp_Download := (\<lambda>path url. Some ''timeout'')\<rparr>"

text \<open>One tick has arrived, and the job is queued.\<close>

definition queued_env :: Env where
  "queued_env = example_env\<lparr>cups_GetJobStatus := (\<lambda>cupsJobID. ticks_of [(JobInProgress, ''q'')])\<rparr>"

section \<open>Properties of the Pipeline and of the Stats Aggregator\<close>

subsection \<open>Semaphores and counters\<close>

lemma Acquire_Release: "Acquire s = Some h \<Longrightarrow> Release h = s"
  by (auto simp: Acquire_def Release_def split: if_splits)

lemma incrementJobsProcessed_Some:
  "incrementJobsProcessed pm b = Some pm' \<Longrightarrow>
   pm' = (if b then pm\<lparr>jobsDone := jobsDone pm + 1\<rparr> else pm\<lparr>jobsError := jobsError pm + 1\<rparr>)"
  by (auto simp: incrementJobsProcessed_def Let_def Acquire_Release split: option.splits)

lemma incrementJobsProcessed_registry:
  "incrementJobsProcessed pm b = Some pm' \<Longrightarrow> gcpPrintersByGCPID pm' = gcpPrintersByGCPID pm"
  by (drule incrementJobsProcessed_Some) (simp split: if_splits)

lemma download_released:
  "Acquire (downloadSemaphore pm) = Some held \<Longrightarrow>
   pm\<lparr>downloadSemaphore := held\<rparr>\<lparr>downloadSemaphore := Release held\<rparr> = pm"
  by (simp add: Acquire_Release)

lemma uint_le_succ: "x \<noteq> - 1 \<Longrightarrow> (x::uint) \<le> x + 1"
  by (metis inc_less_eq_triv_imp nle_le)

subsection \<open>The parts of a run\<close>

lemma increments_append: "increments (xs @ ys) = increments xs @ increments ys"
  by (induction xs rule: increments.induct) auto

lemma controls_append: "controls (xs @ ys) = controls xs @ controls ys"
  by (induction xs rule: controls.induct) auto

lemma after_simps:
  "events (after evs r) = evs @ events r"
  "outcome (after evs r) = outcome r"
  "pm_after (after evs r) = pm_after r"
  by (simp_all add: after_def)

lemma defer_Remove_simps:
  "outcome (defer_Remove f r) = outcome r"
  "pm_after (defer_Remove f r) = pm_after r"
  "events (defer_Remove f r) =
     (if outcome r = NotReturned then events r else events r @ [Remove f])"
  by (simp_all add: defer_Remove_def split: outcome.splits)

lemma fail_simps:
  "events (fail pm job msg p) =
     [Control (GCPJobID job) JobError msg, IncrementJobsProcessed False]"
  "outcome (fail pm job msg p) =
     (if incrementJobsProcessed pm False = None then NotReturned else Returned p)"
  "pm_after (fail pm job msg p) =
     (case incrementJobsProcessed pm False of None \<Rightarrow> pm | Some pm' \<Rightarrow> pm')"
  by (simp_all add: fail_def split: option.splits)

subsection \<open>One call of \<^verbatim>\<open>incrementJobsProcessed\<close> per invocation\<close>

lemma counted_once_after:
  "increments evs = [] \<Longrightarrow> counted_once pm r \<Longrightarrow> counted_once pm (after evs r)"
  by (simp add: counted_once_def after_simps increments_append split: outcome.splits)

lemma counted_once_fail:
  "p \<noteq> TerminalStatus JobDone \<Longrightarrow> counted_once pm (fail pm job msg p)"
  by (auto simp: counted_once_def fail_simps split: outcome.splits if_splits)

lemma counted_once_defer:
  "counted_once pm r \<Longrightarrow> counted_once pm (defer_Remove f r)"
  by (simp add: counted_once_def defer_Remove_simps increments_append split: outcome.splits)

lemma counted_once_poll: "counted_once pm (poll pm job i ticks st msg)"
proof (induction ticks arbitrary: st msg)
  case Nil
  then show ?case by (simp add: counted_once_def)
next
  case (Cons t ticks)
  show ?case
  proof (cases t)
    case (Inl err)
    then show ?thesis by (simp add: counted_once_after counted_once_fail)
  next
    case (Inr ob)
    obtain latestStatus latestMessage where ob: "ob = (latestStatus, latestMessage)"
      by (cases ob)
    show ?thesis
    proof (cases "GCPStatus latestStatus \<noteq> JobInProgress")
      case True
      then show ?thesis
        by (auto simp: Inr ob Let_def counted_once_def after_simps increments_append
            split: option.splits)
    next
      case False
      then show ?thesis
        by (auto simp: Inr ob Let_def Cons.IH intro!: counted_once_after)
    qed
  qed
qed

lemma counted_once_submit: "counted_once pm (submit env pm job printer f opts)"
  by (auto simp: submit_def Let_def counted_once_poll counted_once_fail
      intro!: counted_once_after split: sum.splits)

lemma counted_once_processJob: "counted_once pm (processJob env pm job)"
  unfolding processJob_def
  by (auto simp: Let_def download_released counted_once_fail counted_once_submit
      counted_once_defer
      counted_once_def [of pm "\<lparr>pm_after = pm, events = [], outcome = NotReturned\<rparr>"]
      intro!: counted_once_after split: sum.splits option.splits)

text \<open>The exit labels name the failure that the invocation met.\<close>

lemma poll_exit:
  "outcome (poll pm job i ticks st msg) = Returned p \<Longrightarrow>
   p = StatusQueryFailed \<or> (\<exists>s. p = TerminalStatus s \<and> s \<noteq> JobInProgress)"
proof (induction ticks arbitrary: st msg)
  case Nil
  then show ?case by simp
next
  case (Cons t ticks)
  show ?case
  proof (cases t)
    case (Inl err)
    with Cons.prems show ?thesis
      by (simp add: after_simps fail_simps split: if_splits)
  next
    case (Inr ob)
    obtain latestStatus latestMessage where ob: "ob = (latestStatus, latestMessage)"
      by (cases ob)
    show ?thesis
    proof (cases "GCPStatus latestStatus \<noteq> JobInProgress")
      case True
      with Cons.prems show ?thesis
        by (auto simp: Inr ob Let_def after_simps split: option.splits)
    next
      case False
      with Cons.prems have "outcome (poll pm job i ticks
          (if GCPStatus latestStatus \<noteq> st \<or> latestMessage \<noteq> msg
           then GCPStatus latestStatus else st)
          (if GCPStatus latestStatus \<noteq> st \<or> latestMessage \<noteq> msg
           then latestMessage else msg)) = Returned p"
        by (simp add: Inr ob Let_def after_simps)
      then show ?thesis by (rule Cons.IH)
    qed
  qed
qed

text \<open>
  C7. Every invocation of \<^verbatim>\<open>processJob\<close> that returns has called
  \<^verbatim>\<open>incrementJobsProcessed\<close> exactly once: with \<^verbatim>\<open>true\<close> when it left on the terminal
  status \<^verbatim>\<open>lib.JobDone\<close>, with \<^verbatim>\<open>false\<close> on every other exit (unknown printer, ticket,
  temporary file, download, submission, status query, or a terminal status other than
  done). The manager it leaves is the manager it started with after that one call, so
  one counter is one higher and the other is unchanged; a counter that is not at the
  largest value of \<^verbatim>\<open>uint\<close> has not decreased.
\<close>

theorem processJob_increments_once:
  assumes returned: "outcome (processJob env pm job) = Returned path"
  shows "increments (events (processJob env pm job)) = [path = TerminalStatus JobDone]
    \<and> incrementJobsProcessed pm (path = TerminalStatus JobDone)
        = Some (pm_after (processJob env pm job))
    \<and> (path \<in> {UnknownPrinter, TicketFailed, TempFileFailed, DownloadFailed, SubmitFailed,
          StatusQueryFailed} \<union> {TerminalStatus s | s. s \<noteq> JobDone}
        \<longleftrightarrow> increments (events (processJob env pm job)) = [False])
    \<and> jobsDone (pm_after (processJob env pm job))
        = jobsDone pm + (if path = TerminalStatus JobDone then 1 else 0)
    \<and> jobsError (pm_after (processJob env pm job))
        = jobsError pm + (if path = TerminalStatus JobDone then 0 else 1)
    \<and> (jobsDone pm \<noteq> - 1 \<longrightarrow> jobsDone pm \<le> jobsDone (pm_after (processJob env pm job)))
    \<and> (jobsError pm \<noteq> - 1 \<longrightarrow> jobsError pm \<le> jobsError (pm_after (processJob env pm job)))"
proof -
  let ?r = "processJob env pm job"
  let ?done = "path = TerminalStatus JobDone"
  have once: "counted_once pm ?r"
    by (rule counted_once_processJob)
  with returned have flags: "increments (events ?r) = [?done]"
    and call: "incrementJobsProcessed pm ?done = Some (pm_after ?r)"
    by (simp_all add: counted_once_def)
  from call have after: "pm_after ?r =
      (if ?done then pm\<lparr>jobsDone := jobsDone pm + 1\<rparr> else pm\<lparr>jobsError := jobsError pm + 1\<rparr>)"
    by (rule incrementJobsProcessed_Some)
  have paths: "path \<in> {UnknownPrinter, TicketFailed, TempFileFailed, DownloadFailed,
      SubmitFailed, StatusQueryFailed} \<union> {TerminalStatus s | s. s \<noteq> JobDone} \<longleftrightarrow> \<not> ?done"
    by (cases path) auto
  have dones: "jobsDone (pm_after ?r) = jobsDone pm + (if ?done then 1 else 0)"
    and errors: "jobsError (pm_after ?r) = jobsError pm + (if ?done then 0 else 1)"
    by (simp_all add: after)
  have mono_done: "jobsDone pm \<noteq> - 1 \<longrightarrow> jobsDone pm \<le> jobsDone (pm_after ?r)"
    by (simp add: dones uint_le_succ)
  have mono_error: "jobsError pm \<noteq> - 1 \<longrightarrow> jobsError pm \<le> jobsError (pm_after ?r)"
    by (simp add: errors uint_le_succ)
  from flags call paths dones errors mono_done mono_error show ?thesis
    by simp
qed

subsection \<open>Concrete runs\<close>

lemmas run_defs = processJob_def submit_def fail_def after_def defer_Remove_def
  incrementJobsProcessed_def Acquire_def Release_def NewSemaphore_def Let_def ticks_of_def
  JobInProgress_def JobDone_def JobError_def

lemmas example_defs = example_env_def example_pm_def example_job_def second_job_def
  stray_job_def example_printer_def failing_download_env_def queued_env_def

text \<open>
  The job of a known printer, with the owner cut at the first \<^verbatim>\<open>@\<close>: ticket, temporary
  file, download, submission, one report per change of the pair, the count, the removal.
\<close>

lemma example_run:
  "processJob example_env example_pm example_job =
     \<lparr>pm_after = example_pm\<lparr>jobsDone := 1\<rparr>,
      events = [Ticket ''ticket/j1'', CreateTempFile, Download ''/tmp/job.pdf'' ''file/j1'',
        Close ''/tmp/job.pdf'', Print ''HP'' ''/tmp/job.pdf'' ''gcp:j1'' ''alice'' [],
        GetJobStatus 7, Control ''j1'' JobInProgress ''q'',
        GetJobStatus 7,
        GetJobStatus 7, Control ''j1'' JobInProgress ''printing'',
        GetJobStatus 7, Control ''j1'' JobDone [],
        IncrementJobsProcessed True, Remove ''/tmp/job.pdf''],
      outcome = Returned (TerminalStatus JobDone)\<rparr>"
  by (simp add: run_defs example_defs)

lemma stray_run:
  "processJob example_env example_pm stray_job =
     \<lparr>pm_after = example_pm\<lparr>jobsError := 1\<rparr>,
      events = [Control ''j9'' JobError ''Failed to find GCP printer r99 for job j9'',
        IncrementJobsProcessed False],
      outcome = Returned UnknownPrinter\<rparr>"
  by (simp add: run_defs example_defs)

lemma failing_download_run:
  "processJob failing_download_env example_pm example_job =
     \<lparr>pm_after = example_pm\<lparr>jobsError := 1\<rparr>,
      events = [Ticket ''ticket/j1'', CreateTempFile, Download ''/tmp/job.pdf'' ''file/j1'',
        Control ''j1'' JobError ''Failed to download PDF for job j1: timeout'',
        IncrementJobsProcessed False],
      outcome = Returned DownloadFailed\<rparr>"
  by (simp add: run_defs example_defs)

lemma queued_run:
  "processJob queued_env example_pm example_job =
     \<lparr>pm_after = example_pm,
      events = [Ticket ''ticket/j1'', CreateTempFile, Download ''/tmp/job.pdf'' ''file/j1'',
        Close ''/tmp/job.pdf'', Print ''HP'' ''/tmp/job.pdf'' ''gcp:j1'' ''alice'' [],
        GetJobStatus 7, Control ''j1'' JobInProgress ''q''],
      outcome = NotReturned\<rparr>"
  by (simp add: run_defs example_defs)

lemma queued_second_run:
  "processJob queued_env example_pm second_job =
     \<lparr>pm_after = example_pm,
      events = [Ticket ''ticket/j2'', CreateTempFile, Download ''/tmp/job.pdf'' ''file/j2'',
        Close ''/tmp/job.pdf'', Print ''HP'' ''/tmp/job.pdf'' ''gcp:j2'' ''bob'' [],
        GetJobStatus 7, Control ''j2'' JobInProgress ''q''],
      outcome = NotReturned\<rparr>"
  by (simp add: run_defs example_defs)

theorem processJob_increments_once_witness:
  "outcome (processJob example_env example_pm example_job) = Returned (TerminalStatus JobDone)
   \<and> increments (events (processJob example_env example_pm example_job)) = [True]
   \<and> jobsDone (pm_after (processJob example_env example_pm example_job)) = 1
   \<and> jobsError (pm_after (processJob example_env example_pm example_job)) = 0
   \<and> outcome (processJob example_env example_pm stray_job) = Returned UnknownPrinter
   \<and> increments (events (processJob example_env example_pm stray_job)) = [False]"
proof -
  have finished: "outcome (processJob example_env example_pm example_job)
      = Returned (TerminalStatus JobDone)"
    by (simp add: example_run)
  have stray: "outcome (processJob example_env example_pm stray_job) = Returned UnknownPrinter"
    by (simp add: stray_run)
  from processJob_increments_once [OF finished] processJob_increments_once [OF stray] finished stray
  show ?thesis
    by (simp add: example_pm_def)
qed

subsection \<open>The owner passed to the print call\<close>

lemma Split_nonempty: "Split s sep \<noteq> []"
  by (induction s) auto

lemma hd_Split: "hd (Split s sep) = takeWhile (\<lambda>c. c \<noteq> sep) s"
  by (induction s) auto

lemma Split_first: "Split s sep ! 0 = takeWhile (\<lambda>c. c \<noteq> sep) s"
  using hd_Split [of s sep] Split_nonempty [of s sep] by (simp add: hd_conv_nth)

lemma no_Print_in_fail: "Print n f t ow opts \<notin> set (events (fail pm job msg p))"
  by (simp add: fail_simps)

lemma no_Print_in_poll: "Print n f t ow opts \<notin> set (events (poll pm job i ticks st msg))"
proof (induction ticks arbitrary: st msg)
  case Nil
  then show ?case by simp
next
  case (Cons tick ticks)
  show ?case
  proof (cases tick)
    case (Inl err)
    then show ?thesis by (simp add: after_simps fail_simps)
  next
    case (Inr ob)
    then show ?thesis
      using Cons.IH by (cases ob) (auto simp: Let_def after_simps split: option.splits)
  qed
qed

lemma Print_in_submit:
  assumes "Print n f t ow opts \<in> set (events (submit env pm job printer pdfFile os))"
  shows "ow = (if jobFullUsername pm then OwnerID job
               else takeWhile (\<lambda>c. c \<noteq> CHR ''@'') (OwnerID job))"
  using assms
  by (auto simp: submit_def Let_def after_simps no_Print_in_fail no_Print_in_poll Split_first
      split: sum.splits if_splits)

text \<open>
  C9. The flag of the manager is \<^verbatim>\<open>jobFullUsername\<close>, and the owner is cut when it is not
  set. The owner of every print call that an invocation of \<^verbatim>\<open>processJob\<close> makes is the part
  of the job's owner before the first \<^verbatim>\<open>@\<close> when \<^verbatim>\<open>jobFullUsername\<close> is false, which is
  the whole owner when it holds no \<^verbatim>\<open>@\<close>, and the job's owner as it is when
  \<^verbatim>\<open>jobFullUsername\<close> is true.
\<close>

theorem print_owner_projection:
  assumes printed: "Print n f t ow opts \<in> set (events (processJob env pm job))"
  shows "(\<not> jobFullUsername pm \<longrightarrow> ow = takeWhile (\<lambda>c. c \<noteq> CHR ''@'') (OwnerID job))
    \<and> (\<not> jobFullUsername pm \<and> CHR ''@'' \<notin> set (OwnerID job) \<longrightarrow> ow = OwnerID job)
    \<and> (jobFullUsername pm \<longrightarrow> ow = OwnerID job)"
proof -
  from printed obtain printer pdfFile os pm2 where
    "Print n f t ow opts \<in> set (events (submit env pm2 job printer pdfFile os))"
    and flag: "jobFullUsername pm2 = jobFullUsername pm"
    unfolding processJob_def
    by (auto simp: Let_def after_simps defer_Remove_simps no_Print_in_fail
        split: option.splits sum.splits if_splits)
  then have owner: "ow = (if jobFullUsername pm then OwnerID job
      else takeWhile (\<lambda>c. c \<noteq> CHR ''@'') (OwnerID job))"
    using Print_in_submit by metis
  have whole: "CHR ''@'' \<notin> set (OwnerID job) \<Longrightarrow>
      takeWhile (\<lambda>c. c \<noteq> CHR ''@'') (OwnerID job) = OwnerID job"
    by (rule takeWhile_eq_all_conv [THEN iffD2]) auto
  from owner whole show ?thesis
    by auto
qed

theorem print_owner_projection_witness:
  "Print ''HP'' ''/tmp/job.pdf'' ''gcp:j1'' ''alice'' []
     \<in> set (events (processJob example_env example_pm example_job))
   \<and> \<not> jobFullUsername example_pm
   \<and> OwnerID example_job = ''alice@corp''
   \<and> ''alice'' = takeWhile (\<lambda>c. c \<noteq> CHR ''@'') (OwnerID example_job)"
proof -
  have printed: "Print ''HP'' ''/tmp/job.pdf'' ''gcp:j1'' ''alice'' []
      \<in> set (events (processJob example_env example_pm example_job))"
    by (simp add: example_run)
  from print_owner_projection [OF printed] printed show ?thesis
    by (simp add: example_pm_def example_job_def)
qed

subsection \<open>The temporary file\<close>

text \<open>
  After the \<^verbatim>\<open>defer\<close> statement of line 286 every return removes the file: the removal is
  the last event of an invocation that left at the submission or in the polling loop.
\<close>

lemma removed_after_defer:
  "outcome (defer_Remove f r) = Returned p \<Longrightarrow> last (events (defer_Remove f r)) = Remove f"
  by (simp add: defer_Remove_simps)

text \<open>
  C4. The \<^verbatim>\<open>defer\<close> statement stands after the return of the failed download. An
  invocation that finds the printer, gets the ticket, is given the temporary file
  \<open>pdfFile\<close> and fails to download makes the five calls below and returns; the removal of
  \<open>pdfFile\<close> is not among them.
\<close>

theorem download_failure_keeps_temp_file:
  assumes found: "map_of (gcpPrintersByGCPID pm) (GCPPrinterID job) = Some printer"
    and ticket: "gcp_Ticket env (TicketURL job) = Inr opts"
    and created: "cups_CreateTempFile env = Inr pdfFile"
    and slot: "Acquire (downloadSemaphore pm) = Some held"
    and download: "gcp_Download env pdfFile (FileURL job) = Some e"
    and counted: "incrementJobsProcessed pm False = Some pm'"
  shows "processJob env pm job =
      \<lparr>pm_after = pm',
       events = [Ticket (TicketURL job), CreateTempFile, Download pdfFile (FileURL job),
         Control (GCPJobID job) JobError
           (''Failed to download PDF for job '' @ GCPJobID job @ '': '' @ e),
         IncrementJobsProcessed False],
       outcome = Returned DownloadFailed\<rparr>
    \<and> Remove pdfFile \<notin> set (events (processJob env pm job))"
proof -
  from slot have restored: "pm\<lparr>downloadSemaphore := held\<rparr>\<lparr>downloadSemaphore := Release held\<rparr> = pm"
    by (rule download_released)
  have run: "processJob env pm job =
      after [Ticket (TicketURL job)] (after [CreateTempFile]
        (after [Download pdfFile (FileURL job)]
          (fail pm job (''Failed to download PDF for job '' @ GCPJobID job @ '': '' @ e)
             DownloadFailed)))"
    by (simp add: processJob_def found ticket created slot download restored Let_def)
  have failed: "fail pm job (''Failed to download PDF for job '' @ GCPJobID job @ '': '' @ e)
      DownloadFailed =
      \<lparr>pm_after = pm',
       events = [Control (GCPJobID job) JobError
           (''Failed to download PDF for job '' @ GCPJobID job @ '': '' @ e),
         IncrementJobsProcessed False],
       outcome = Returned DownloadFailed\<rparr>"
    by (simp add: fail_def counted)
  show ?thesis
    unfolding run failed
    by (simp add: after_def)
qed

theorem download_failure_keeps_temp_file_witness:
  "cups_CreateTempFile failing_download_env = Inr ''/tmp/job.pdf''
   \<and> gcp_Download failing_download_env ''/tmp/job.pdf'' (FileURL example_job) = Some ''timeout''
   \<and> outcome (processJob failing_download_env example_pm example_job) = Returned DownloadFailed
   \<and> CreateTempFile \<in> set (events (processJob failing_download_env example_pm example_job))
   \<and> Remove ''/tmp/job.pdf''
       \<notin> set (events (processJob failing_download_env example_pm example_job))"
proof -
  have found: "map_of (gcpPrintersByGCPID example_pm) (GCPPrinterID example_job)
      = Some example_printer"
    by (simp add: example_defs)
  have ticket: "gcp_Ticket failing_download_env (TicketURL example_job) = Inr []"
    by (simp add: example_defs)
  have created: "cups_CreateTempFile failing_download_env = Inr ''/tmp/job.pdf''"
    by (simp add: example_defs)
  have slot: "Acquire (downloadSemaphore example_pm) = Some \<lparr>holders = 1, capacity = 2\<rparr>"
    by (simp add: example_defs Acquire_def NewSemaphore_def)
  have download: "gcp_Download failing_download_env ''/tmp/job.pdf'' (FileURL example_job)
      = Some ''timeout''"
    by (simp add: example_defs)
  have counted: "incrementJobsProcessed example_pm False = Some (example_pm\<lparr>jobsError := 1\<rparr>)"
    by (simp add: example_defs incrementJobsProcessed_def Acquire_def Release_def NewSemaphore_def)
  from download_failure_keeps_temp_file [OF found ticket created slot download counted]
    created download
  show ?thesis
    by simp
qed

subsection \<open>The statistics\<close>

lemma GetJobStats_range_sum:
  "GetJobStats_range printers acc = Some summed \<Longrightarrow>
   summed = acc + (\<Sum>(gcpid, printer)\<leftarrow>printers.
     case CUPSJobSemaphore printer of None \<Rightarrow> 0 | Some sem \<Rightarrow> Count sem)"
proof (induction printers arbitrary: acc)
  case Nil
  then show ?case by simp
next
  case (Cons entry printers)
  obtain gcpid printer where entry: "entry = (gcpid, printer)"
    by (cases entry)
  from Cons.prems obtain sem where sem: "CUPSJobSemaphore printer = Some sem"
    and rest: "GetJobStats_range printers (acc + Count sem) = Some summed"
    by (auto simp: entry split: option.splits)
  from Cons.IH [OF rest] show ?case
    by (simp add: entry sem add.assoc)
qed

text \<open>
  C1. \<^verbatim>\<open>GetJobStats\<close> returns 0 as \<^verbatim>\<open>processed\<close>, whatever the two counters hold:
  nothing is assigned to the variable. \<^verbatim>\<open>processing\<close> is the sum of the holders of the
  semaphores of the printers in the Registry, and the error is \<^verbatim>\<open>nil\<close>.
\<close>

theorem GetJobStats_processed_is_zero:
  assumes "GetJobStats pm = Some (processed, processing, err)"
  shows "processed = 0
    \<and> processing = (\<Sum>(gcpid, printer)\<leftarrow>gcpPrintersByGCPID pm.
         case CUPSJobSemaphore printer of None \<Rightarrow> 0 | Some sem \<Rightarrow> Count sem)
    \<and> err = None"
proof -
  from assms obtain summed where
    range: "GetJobStats_range (gcpPrintersByGCPID pm) 0 = Some summed"
    and result: "(processed, processing, err) = (0, summed, None)"
    by (auto simp: GetJobStats_def Let_def split: option.splits)
  from GetJobStats_range_sum [OF range] result show ?thesis
    by simp
qed

text \<open>
  After one invocation has returned, for a job whose printer is unknown, the counters
  hold one terminated job and \<^verbatim>\<open>GetJobStats\<close> reports none.
\<close>

theorem GetJobStats_processed_is_zero_witness:
  "outcome (processJob example_env example_pm stray_job) = Returned UnknownPrinter
   \<and> jobsDone (pm_after (processJob example_env example_pm stray_job))
       + jobsError (pm_after (processJob example_env example_pm stray_job)) = 1
   \<and> GetJobStats (pm_after (processJob example_env example_pm stray_job)) = Some (0, 0, None)"
proof -
  have stats: "GetJobStats (pm_after (processJob example_env example_pm stray_job))
      = Some (0, 0, None)"
    unfolding stray_run
    by (simp add: GetJobStats_def example_pm_def example_printer_def Count_def NewSemaphore_def)
  from GetJobStats_processed_is_zero [OF stats] stats show ?thesis
    unfolding stray_run
    by (simp add: example_pm_def)
qed

subsection \<open>The semaphores of the printers\<close>

lemma fail_registry:
  "gcpPrintersByGCPID (pm_after (fail pm job msg p)) = gcpPrintersByGCPID pm"
  by (simp add: fail_simps incrementJobsProcessed_registry split: option.splits)

lemma poll_registry:
  "gcpPrintersByGCPID (pm_after (poll pm job i ticks st msg)) = gcpPrintersByGCPID pm"
proof (induction ticks arbitrary: st msg)
  case Nil
  then show ?case by simp
next
  case (Cons tick ticks)
  show ?case
  proof (cases tick)
    case (Inl err)
    then show ?thesis by (simp add: after_simps fail_registry)
  next
    case (Inr ob)
    then show ?thesis
      using Cons.IH
      by (cases ob)
        (auto simp: Let_def after_simps incrementJobsProcessed_registry split: option.splits)
  qed
qed

lemma submit_registry:
  "gcpPrintersByGCPID (pm_after (submit env pm job printer f opts)) = gcpPrintersByGCPID pm"
  by (simp add: submit_def Let_def after_simps fail_registry poll_registry split: sum.splits)

text \<open>
  C2, as the code has it. \<^verbatim>\<open>processJob\<close> neither acquires nor releases the semaphore of
  the job's printer: whether the invocation is in flight or has returned, the Registry,
  and in it the holders of every printer's semaphore, is what it was when the invocation
  started. No bound on the jobs of a printer that are in flight follows from its capacity.
\<close>

theorem processJob_keeps_printer_semaphores:
  "gcpPrintersByGCPID (pm_after (processJob env pm job)) = gcpPrintersByGCPID pm"
proof (cases "map_of (gcpPrintersByGCPID pm) (GCPPrinterID job)")
  case None
  then show ?thesis
    by (simp add: processJob_def fail_registry)
next
  case (Some printer)
  have restored: "\<And>held. Acquire (downloadSemaphore pm) = Some held \<Longrightarrow>
      pm\<lparr>downloadSemaphore := held\<rparr>\<lparr>downloadSemaphore := Release held\<rparr> = pm"
    by (rule download_released)
  show ?thesis
    by (simp add: processJob_def Some Let_def after_simps defer_Remove_simps restored
        fail_registry submit_registry split: sum.splits option.splits)
qed

text \<open>
  C2, as stated, fails. The printer \<^verbatim>\<open>r7\<close> has capacity 1. A first job for it is
  submitted and waits in its polling loop; a second job for it, started then, is
  submitted as well. Both are in flight, and the semaphore of the printer has no holder.
\<close>

theorem two_jobs_in_flight_at_capacity_one:
  "in_flight (processJob queued_env example_pm example_job)
   \<and> submitted (processJob queued_env example_pm example_job)
   \<and> in_flight (processJob queued_env
        (pm_after (processJob queued_env example_pm example_job)) second_job)
   \<and> submitted (processJob queued_env
        (pm_after (processJob queued_env example_pm example_job)) second_job)
   \<and> GCPPrinterID example_job = ''r7'' \<and> GCPPrinterID second_job = ''r7''
   \<and> map_option CUPSJobSemaphore (map_of (gcpPrintersByGCPID (pm_after (processJob queued_env
        (pm_after (processJob queued_env example_pm example_job)) second_job))) ''r7'')
       = Some (Some \<lparr>holders = 0, capacity = 1\<rparr>)
   \<and> \<not> length (filter in_flight [processJob queued_env example_pm example_job,
          processJob queued_env (pm_after (processJob queued_env example_pm example_job))
            second_job]) \<le> unat (1 :: uint)"
proof -
  have first: "pm_after (processJob queued_env example_pm example_job) = example_pm"
    by (simp add: queued_run)
  show ?thesis
    unfolding first
    by (simp add: queued_run queued_second_run in_flight_def submitted_def)
      (simp add: example_defs NewSemaphore_def)
qed

subsection \<open>The reports of the polling loop\<close>

lemma controls_fail:
  "controls (events (fail pm job msg p)) = [(GCPJobID job, JobError, msg)]"
  by (simp add: fail_simps)

lemma ticks_of_simps:
  "ticks_of [] = []"
  "ticks_of ((s, m) # obs) = Inr (CUPSJobStatus s, m) # ticks_of obs"
  by (simp_all add: ticks_of_def)

text \<open>The loop sends what the specification's loop sends, from any pair reported last.\<close>

lemma poll_reports_spec:
  "controls (events (poll pm job i (ticks_of obs) st msg))
     = map (\<lambda>(s, m). (GCPJobID job, s, m)) (spec_reports (st, msg) obs)"
proof (induction obs arbitrary: st msg)
  case Nil
  then show ?case by (simp add: ticks_of_def)
next
  case (Cons ob obs)
  obtain s m where ob: "ob = (s, m)"
    by (cases ob)
  show ?case
  proof (cases "s \<noteq> JobInProgress")
    case True
    then show ?thesis
      by (auto simp: ticks_of_simps ob Let_def after_simps controls_append split: option.splits)
  next
    case False
    then show ?thesis
      using Cons.IH
      by (auto simp: ticks_of_simps ob Let_def after_simps controls_append)
  qed
qed

text \<open>Answers after the first status that is not in progress are never read.\<close>

lemma poll_stops_at_terminal:
  assumes "\<forall>ob \<in> set pre. fst ob = JobInProgress" and "s \<noteq> JobInProgress"
  shows "poll pm job i (ticks_of (pre @ (s, m) # rest)) st msg
     = poll pm job i (ticks_of (pre @ [(s, m)])) st msg"
  using assms
proof (induction pre arbitrary: st msg)
  case Nil
  then show ?case by (simp add: ticks_of_def Let_def)
next
  case (Cons ob pre)
  obtain s' m' where ob: "ob = (s', m')"
    by (cases ob)
  from Cons.prems have progress: "s' = JobInProgress" and others: "\<forall>ob \<in> set pre. fst ob = JobInProgress"
    by (simp_all add: ob)
  have step: "\<And>obs st msg. poll pm job i (ticks_of ((s', m') # obs)) st msg =
      after [GetJobStatus i]
        (after (if s' \<noteq> st \<or> m' \<noteq> msg then [Control (GCPJobID job) s' m'] else [])
          (poll pm job i (ticks_of obs)
            (if s' \<noteq> st \<or> m' \<noteq> msg then s' else st)
            (if s' \<noteq> st \<or> m' \<noteq> msg then m' else msg)))"
    by (simp add: ticks_of_def progress Let_def)
  show ?case
    unfolding ob append_Cons step
    by (simp only: Cons.IH [OF others Cons.prems(2)])
qed

lemma poll_terminal_outcome:
  assumes "\<forall>ob \<in> set pre. fst ob = JobInProgress" and "s \<noteq> JobInProgress"
  shows "outcome (poll pm job i (ticks_of (pre @ [(s, m)])) st msg)
     = (if incrementJobsProcessed pm (s = JobDone) = None then NotReturned
        else Returned (TerminalStatus s))"
  using assms
proof (induction pre arbitrary: st msg)
  case Nil
  then show ?case
    by (auto simp: ticks_of_def Let_def after_simps split: option.splits)
next
  case (Cons ob pre)
  obtain s' m' where ob: "ob = (s', m')"
    by (cases ob)
  from Cons.prems have progress: "s' = JobInProgress" and others: "\<forall>ob \<in> set pre. fst ob = JobInProgress"
    by (simp_all add: ob)
  have "outcome (poll pm job i (ticks_of (ob # pre @ [(s, m)])) st msg)
      = outcome (poll pm job i (ticks_of (pre @ [(s, m)]))
          (if s' \<noteq> st \<or> m' \<noteq> msg then s' else st)
          (if s' \<noteq> st \<or> m' \<noteq> msg then m' else msg))"
    by (simp add: ticks_of_def ob progress Let_def after_simps)
  then show ?case
    by (simp add: Cons.IH [OF others Cons.prems(2)])
qed

lemma poll_in_progress_continues:
  "\<forall>ob \<in> set obs. fst ob = JobInProgress \<Longrightarrow>
   outcome (poll pm job i (ticks_of obs) st msg) = NotReturned"
proof (induction obs arbitrary: st msg)
  case Nil
  then show ?case by (simp add: ticks_of_def)
next
  case (Cons ob obs)
  obtain s m where ob: "ob = (s, m)"
    by (cases ob)
  from Cons.prems have progress: "s = JobInProgress" and others: "\<forall>ob \<in> set obs. fst ob = JobInProgress"
    by (simp_all add: ob)
  have "outcome (poll pm job i (ticks_of (ob # obs)) st msg)
      = outcome (poll pm job i (ticks_of obs)
          (if s \<noteq> st \<or> m \<noteq> msg then s else st)
          (if s \<noteq> st \<or> m \<noteq> msg then m else msg))"
    by (simp add: ticks_of_def ob progress Let_def after_simps)
  then show ?case
    by (simp add: Cons.IH [OF others])
qed

lemma terminal_only_last_simps:
  "terminal_only_last []"
  "terminal_only_last [c]"
  "fst (snd c) = JobInProgress \<Longrightarrow> terminal_only_last cs \<Longrightarrow> terminal_only_last (c # cs)"
  by (auto simp: terminal_only_last_def)

lemma terminal_only_last_poll:
  "terminal_only_last (controls (events (poll pm job i ticks st msg)))"
proof (induction ticks arbitrary: st msg)
  case Nil
  then show ?case by (simp add: terminal_only_last_simps)
next
  case (Cons tick ticks)
  show ?case
  proof (cases tick)
    case (Inl err)
    then show ?thesis
      by (simp add: after_simps controls_fail terminal_only_last_simps)
  next
    case (Inr ob)
    obtain latestStatus latestMessage where ob: "ob = (latestStatus, latestMessage)"
      by (cases ob)
    show ?thesis
    proof (cases "GCPStatus latestStatus \<noteq> JobInProgress")
      case True
      then show ?thesis
        by (auto simp: Inr ob Let_def after_simps controls_append terminal_only_last_simps
            split: option.splits)
    next
      case False
      then show ?thesis
        using Cons.IH
        by (auto simp: Inr ob Let_def after_simps controls_append
            intro: terminal_only_last_simps)
    qed
  qed
qed

lemma terminal_only_last_processJob:
  "terminal_only_last (controls (events (processJob env pm job)))"
  unfolding processJob_def submit_def
  by (auto simp: Let_def after_simps defer_Remove_simps controls_append controls_fail
      terminal_only_last_simps terminal_only_last_poll split: option.splits sum.splits)

lemma terminal_only_last_nth:
  assumes "terminal_only_last cs" and "k < length cs" and "fst (snd (cs ! k)) \<noteq> JobInProgress"
  shows "Suc k = length cs"
proof (rule ccontr)
  assume "Suc k \<noteq> length cs"
  with assms(2) have k: "k < length (butlast cs)"
    by simp
  then have "butlast cs ! k \<in> set (butlast cs)"
    by (rule nth_mem)
  with k have "cs ! k \<in> set (butlast cs)"
    by (simp add: nth_butlast)
  with assms(1,3) show False
    by (auto simp: terminal_only_last_def)
qed

lemma terminal_only_last_count:
  assumes "terminal_only_last cs"
  shows "length (filter (\<lambda>(j, s, m). s \<noteq> JobInProgress) cs) \<le> 1"
proof (cases cs rule: rev_cases)
  case Nil
  then show ?thesis by simp
next
  case (snoc front c)
  with assms have "\<forall>c \<in> set front. fst (snd c) = JobInProgress"
    by (simp add: terminal_only_last_def)
  then have "filter (\<lambda>(j, s, m). s \<noteq> JobInProgress) front = []"
    by (auto simp: filter_empty_conv)
  with snoc show ?thesis
    by simp
qed

end
